theory Spec2Isabelle
  imports Main "HOL-Library.Word" "HOL-Library.Sublist"
begin

section \<open>Python values used by main.py\<close>

text \<open>
  A Python \<^verbatim>\<open>str\<close> is a sequence of Unicode code points, a \<^verbatim>\<open>bytes\<close> object a
  sequence of octets. \<open>py\<close> writes a \<^verbatim>\<open>str\<close> literal from an ASCII literal.
\<close>

type_synonym codepoint = nat
type_synonym str = "codepoint list"
type_synonym bytes = "8 word list"

definition py :: "string \<Rightarrow> str" where
  "py s = map of_char s"

text \<open>\<^verbatim>\<open>x or default\<close> on an \<^verbatim>\<open>Optional[str]\<close>: \<^verbatim>\<open>None\<close> and \<^verbatim>\<open>""\<close> are both falsy.\<close>

fun truthy :: "str option \<Rightarrow> bool" where
  "truthy None = False"
| "truthy (Some s) = (s \<noteq> [])"

definition or_str :: "str option \<Rightarrow> str \<Rightarrow> str" where
  "or_str x d = (if truthy x then the x else d)"

text \<open>\<^verbatim>\<open>s.startswith(p)\<close>\<close>

definition startswith :: "str \<Rightarrow> str \<Rightarrow> bool" where
  "startswith s p = (take (length p) s = p)"

text \<open>
  \<^verbatim>\<open>s.split(sep)\<close> for a one-character separator: the pieces between the
  separators, empty pieces kept; the empty string gives one empty piece.
\<close>

fun split :: "codepoint \<Rightarrow> str \<Rightarrow> str list" where
  "split sep [] = [[]]"
| "split sep (c # cs) =
     (if c = sep then [] # split sep cs
      else (case split sep cs of
              [] \<Rightarrow> [[c]]
            | p # ps \<Rightarrow> (c # p) # ps))"

text \<open>
  \<^verbatim>\<open>str.isspace\<close> on one code point (CPython's \<^verbatim>\<open>Py_UNICODE_ISSPACE\<close>): the
  characters \<^verbatim>\<open>str.strip()\<close> removes.
\<close>

definition isspace :: "codepoint \<Rightarrow> bool" where
  "isspace c \<longleftrightarrow>
     (9 \<le> c \<and> c \<le> 13) \<or> (28 \<le> c \<and> c \<le> 32) \<or> c = 133 \<or> c = 160 \<or> c = 5760 \<or>
     (8192 \<le> c \<and> c \<le> 8202) \<or> c = 8232 \<or> c = 8233 \<or> c = 8239 \<or> c = 8287 \<or> c = 12288"

text \<open>\<^verbatim>\<open>s.strip()\<close>\<close>

definition strip :: "str \<Rightarrow> str" where
  "strip s = rev (dropWhile isspace (rev (dropWhile isspace s)))"

text \<open>\<^verbatim>\<open>s.rfind(c)\<close>: the index of the last occurrence of \<open>c\<close>, \<open>-1\<close> when there is none.\<close>

fun rfind_from :: "nat \<Rightarrow> str \<Rightarrow> codepoint \<Rightarrow> int" where
  "rfind_from i [] c = - 1"
| "rfind_from i (x # xs) c =
     (let r = rfind_from (Suc i) xs c
      in if 0 \<le> r then r else if x = c then int i else - 1)"

definition rfind :: "str \<Rightarrow> codepoint \<Rightarrow> int" where
  "rfind p c = rfind_from 0 p c"

text \<open>
  \<^verbatim>\<open>os.path.splitext(p)\<close> (posixpath): the extension starts at the last dot, when that
  dot comes after the last \<^verbatim>\<open>/\<close> and some character between them is not a dot.
\<close>

definition slash :: codepoint where "slash = 47"
definition dot :: codepoint where "dot = 46"
definition comma :: codepoint where "comma = 44"

definition splitext :: "str \<Rightarrow> str \<times> str" where
  "splitext p =
     (let sepIndex = rfind p slash; dotIndex = rfind p dot
      in if sepIndex < dotIndex \<and>
            list_ex (\<lambda>k. p ! k \<noteq> dot) [nat (sepIndex + 1) ..< nat dotIndex]
         then (take (nat dotIndex) p, drop (nat dotIndex) p)
         else (p, []))"

section \<open>bson.ObjectId\<close>

text \<open>
  An ObjectId holds the octets of its id. \<^verbatim>\<open>ObjectId(s)\<close> on a \<^verbatim>\<open>str\<close> tests
  \<^verbatim>\<open>len(s) == 24\<close> and then decodes with \<^verbatim>\<open>bytes.fromhex(s)\<close>, raising
  \<^verbatim>\<open>InvalidId\<close> when either fails. \<^verbatim>\<open>bytes.fromhex\<close> reads pairs of hexadecimal
  digits (either case) and skips ASCII whitespace before a pair and at the end, but not
  between the two digits of a pair; so 24 hexadecimal digits give twelve octets, and a
  24-character string with whitespace gives fewer. \<^verbatim>\<open>str(oid)\<close> prints the octets
  as lower-case hexadecimal digits.
\<close>

datatype ObjectId = ObjectId (binary: bytes)

definition hexval :: "codepoint \<Rightarrow> nat option" where
  "hexval c =
     (if 48 \<le> c \<and> c \<le> 57 then Some (c - 48)
      else if 97 \<le> c \<and> c \<le> 102 then Some (c - 87)
      else if 65 \<le> c \<and> c \<le> 70 then Some (c - 55)
      else None)"

text \<open>\<^verbatim>\<open>Py_ISSPACE\<close>: tab, line feed, vertical tab, form feed, carriage return, space.\<close>

definition ascii_space :: "codepoint \<Rightarrow> bool" where
  "ascii_space c \<longleftrightarrow> (9 \<le> c \<and> c \<le> 13) \<or> c = 32"

fun fromhex :: "str \<Rightarrow> bytes option" where
  "fromhex [] = Some []"
| "fromhex [c] = (if ascii_space c then Some [] else None)"
| "fromhex (c # d # cs) =
     (if ascii_space c then fromhex (d # cs)
      else (case (hexval c, hexval d, fromhex cs) of
              (Some h, Some l, Some bs) \<Rightarrow> Some (of_nat (16 * h + l) # bs)
            | _ \<Rightarrow> None))"

definition ObjectId_of_str :: "str \<Rightarrow> ObjectId option" where
  "ObjectId_of_str s =
     (if length s = 24 then map_option ObjectId (fromhex s) else None)"

definition hexdigit :: "nat \<Rightarrow> codepoint" where
  "hexdigit n = (if n < 10 then 48 + n else 87 + n)"

definition hexlify :: "bytes \<Rightarrow> str" where
  "hexlify bs = concat (map (\<lambda>b. [hexdigit (unat b div 16), hexdigit (unat b mod 16)]) bs)"

definition str_of_ObjectId :: "ObjectId \<Rightarrow> str" where
  "str_of_ObjectId oid = hexlify (binary oid)"

section \<open>MongoDB's \<^verbatim>\<open>$regex\<close> operator with option \<^verbatim>\<open>i\<close>\<close>

text \<open>
  The server reads the pattern as a Perl-compatible regular expression and looks for a
  match anywhere in the subject. The model covers printable ASCII only (code points 32
  to 126), in the pattern and in the subject, and the patterns made of ordinary
  characters and the dot: there an ordinary character matches itself, a letter in
  either case, and a dot matches any character. Everything else is outside the model
  and gives \<open>None\<close>: a pattern with another metacharacter or with a character that is
  not printable ASCII (\<open>regex_compile\<close>; the server may also refuse such a pattern),
  and a comparison with a subject character that is not printable ASCII
  (\<open>atom_matches\<close>), where the server folds case by Unicode tables.
\<close>

datatype atom = Literal codepoint | AnyChar

definition printable :: "codepoint \<Rightarrow> bool" where
  "printable c \<longleftrightarrow> 32 \<le> c \<and> c \<le> 126"

definition metachars :: "codepoint list" where
  "metachars = 92 # py ''^$.[]|()?+*{}''"

fun regex_compile :: "str \<Rightarrow> atom list option" where
  "regex_compile [] = Some []"
| "regex_compile (c # cs) =
     (if c = dot then map_option ((#) AnyChar) (regex_compile cs)
      else if \<not> printable c \<or> c \<in> set metachars then None
      else map_option ((#) (Literal c)) (regex_compile cs))"

definition lower_ascii :: "codepoint \<Rightarrow> codepoint" where
  "lower_ascii c = (if 65 \<le> c \<and> c \<le> 90 then c + 32 else c)"

fun atom_matches :: "atom \<Rightarrow> codepoint \<Rightarrow> bool option" where
  "atom_matches (Literal x) c =
     (if printable x \<and> printable c then Some (lower_ascii x = lower_ascii c) else None)"
| "atom_matches AnyChar c = (if printable c then Some True else None)"

text \<open>
  Conjunction and disjunction of answers that may be outside the model, read from the
  left: a first answer that decides the result stands whatever comes after it.
\<close>

fun and_then :: "bool option \<Rightarrow> bool option \<Rightarrow> bool option" where
  "and_then None b = None"
| "and_then (Some x) b = (if x then b else Some False)"

fun or_else :: "bool option \<Rightarrow> bool option \<Rightarrow> bool option" where
  "or_else None b = None"
| "or_else (Some x) b = (if x then Some True else b)"

text \<open>A match of the whole pattern at the start of the subject.\<close>

fun match_here :: "atom list \<Rightarrow> str \<Rightarrow> bool option" where
  "match_here [] s = Some True"
| "match_here (a # as) [] = Some False"
| "match_here (a # as) (c # cs) = and_then (atom_matches a c) (match_here as cs)"

text \<open>A match starting at some position of the subject.\<close>

fun regex_search :: "atom list \<Rightarrow> str \<Rightarrow> bool option" where
  "regex_search r [] = match_here r []"
| "regex_search r (c # cs) = or_else (match_here r (c # cs)) (regex_search r cs)"

section \<open>The data model\<close>

type_synonym timestamp = nat

text \<open>schemas.py, class \<^verbatim>\<open>Video\<close>.\<close>

record Video =
  title :: str
  description :: "str option"
  filename :: str
  content_type :: str
  size_bytes :: int
  views :: int
  tags :: "str list"

text \<open>A document of the collection \<^verbatim>\<open>video\<close>: the fields of \<open>Video\<close>, its \<^verbatim>\<open>_id\<close> and
  the two time fields (\<open>None\<close> is the empty value \<^verbatim>\<open>None\<close>/null).\<close>

record document = Video +
  doc_id :: ObjectId
  created_at :: timestamp
  updated_at :: "timestamp option"

text \<open>The dictionary that \<^verbatim>\<open>list_videos\<close> and \<^verbatim>\<open>get_video\<close> answer with.\<close>

record response = Video +
  resp_id :: str
  resp_created_at :: timestamp

text \<open>FastAPI's \<^verbatim>\<open>UploadFile\<close>: the client's file name, its declared MIME type, the size it
  reports and the bytes \<^verbatim>\<open>await file.read()\<close> returns.\<close>

record UploadFile =
  file_filename :: "str option"
  file_content_type :: "str option"
  file_size :: "int option"
  file_content :: bytes

text \<open>
  What the handlers read and write: the regular files of the directory
  \<^verbatim>\<open>uploads/\<close> by name, and the collection \<^verbatim>\<open>db["video"]\<close> in insertion order.
  The disk and the database are taken to work: a file that opens is written whole, and
  an insertion, a search and an update succeed. \<^verbatim>\<open>open\<close> still refuses a name it
  cannot take (\<open>open_wb\<close> below).
\<close>

record world =
  uploads :: "str \<rightharpoonup> bytes"
  db_video :: "document list"

text \<open>What one upload draws from outside: the two fresh ObjectIds (the one main.py
  makes for the file name, the one the insertion assigns) and the clock.\<close>

record fresh =
  name_oid :: ObjectId
  insert_oid :: ObjectId
  now :: timestamp

text \<open>
  The exceptions a handler lets through: the \<^verbatim>\<open>HTTPException\<close>s it raises itself
  (status code and detail), and the exceptions of the library calls it does not catch,
  which the framework answers with status 500.
\<close>

datatype error = HTTPException nat string | RuntimeError | OSError | ValueError

abbreviation InvalidContentType :: error where
  "InvalidContentType \<equiv> HTTPException 400 ''Only video files are allowed''"

abbreviation InvalidIdentifier :: error where
  "InvalidIdentifier \<equiv> HTTPException 400 ''Invalid video id''"

abbreviation NotFound :: "string \<Rightarrow> error" where
  "NotFound what \<equiv> HTTPException 404 what"

section \<open>The collection: database.py and pymongo\<close>

text \<open>
  Modelled from the spec: database.py (\<^verbatim>\<open>create_document\<close>, \<^verbatim>\<open>get_documents\<close>) is not
  among the sources. \<^verbatim>\<open>Insert(record) -> id\<close> assigns a unique identifier and returns it
  (rendered as a string), \<^verbatim>\<open>created_at\<close> is set at insertion, and the collection keeps
  insertion order. The spec names no value for \<^verbatim>\<open>updated_at\<close> at insertion; it starts empty.
\<close>

definition create_document :: "document list \<Rightarrow> Video \<Rightarrow> ObjectId \<Rightarrow> timestamp \<Rightarrow> str \<times> document list" where
  "create_document coll data oid t =
     (str_of_ObjectId oid,
      coll @ [\<lparr>title = title data, description = description data, filename = filename data,
               content_type = content_type data, size_bytes = size_bytes data,
               views = views data, tags = tags data,
               doc_id = oid, created_at = t, updated_at = None\<rparr>])"

text \<open>
  The filter dictionaries main.py builds: \<^verbatim>\<open>{}\<close>, and
  \<^verbatim>\<open>{"$or": [{field: {"$regex": q, "$options": "i"}}, ...]}\<close>. A regular expression on
  a field holds when the field is a string it matches, or an array with an element it
  matches; a field that is null matches nothing.
\<close>

datatype field = Title | Description | Tags

datatype condition = Regex_i field str

datatype filter_dict = Empty | Or "condition list"

fun field_strings :: "field \<Rightarrow> document \<Rightarrow> str list" where
  "field_strings Title d = [title d]"
| "field_strings Description d = (case description d of None \<Rightarrow> [] | Some s \<Rightarrow> [s])"
| "field_strings Tags d = tags d"

fun any_match :: "atom list \<Rightarrow> str list \<Rightarrow> bool option" where
  "any_match r [] = Some False"
| "any_match r (s # ss) = or_else (regex_search r s) (any_match r ss)"

fun condition_holds :: "condition \<Rightarrow> (document \<Rightarrow> bool option) option" where
  "condition_holds (Regex_i f pattern) =
     map_option (\<lambda>r d. any_match r (field_strings f d)) (regex_compile pattern)"

fun filter_holds :: "filter_dict \<Rightarrow> (document \<Rightarrow> bool option) option" where
  "filter_holds Empty = Some (\<lambda>d. Some True)"
| "filter_holds (Or cs) =
     (if list_all (\<lambda>c. condition_holds c \<noteq> None) cs
      then Some (\<lambda>d. foldr (\<lambda>c rest. or_else (the (condition_holds c) d) rest) cs (Some False))
      else None)"

text \<open>The documents of the collection a filter selects, in the collection's order.\<close>

fun select_docs :: "(document \<Rightarrow> bool option) \<Rightarrow> document list \<Rightarrow> document list option" where
  "select_docs P [] = Some []"
| "select_docs P (d # ds) =
     (case (P d, select_docs P ds) of
        (Some b, Some r) \<Rightarrow> Some (if b then d # r else r)
      | _ \<Rightarrow> None)"

text \<open>
  Modelled from the spec: \<^verbatim>\<open>get_documents\<close> of database.py is not among the sources.
  \<^verbatim>\<open>Find(predicate)\<close> returns all matching records, all records for the empty
  predicate. \<open>None\<close>: the filter holds a pattern, or the collection a string it is
  matched against, outside the model of \<^verbatim>\<open>$regex\<close>.
\<close>

definition get_documents :: "document list \<Rightarrow> filter_dict \<Rightarrow> document list option" where
  "get_documents coll flt =
     (case filter_holds flt of None \<Rightarrow> None | Some P \<Rightarrow> select_docs P coll)"

text \<open>
  pymongo's \<^verbatim>\<open>find_one_and_update(filter, update, return_document=AFTER)\<close>: the first
  document the filter selects is replaced by its update, and the updated document is
  returned; with no such document nothing changes and \<^verbatim>\<open>None\<close> is returned.
\<close>

fun find_one_and_update ::
  "(document \<Rightarrow> bool) \<Rightarrow> (document \<Rightarrow> document) \<Rightarrow> document list \<Rightarrow> document option \<times> document list" where
  "find_one_and_update P u [] = (None, [])"
| "find_one_and_update P u (d # ds) =
     (if P d then (Some (u d), u d # ds)
      else (case find_one_and_update P u ds of (r, ds') \<Rightarrow> (r, d # ds')))"

section \<open>main.py\<close>

text \<open>Line 76: the tag list of an upload.\<close>

definition tag_list :: "str option \<Rightarrow> str list" where
  "tag_list tags_in = [strip t. t \<leftarrow> split comma (or_str tags_in []), strip t \<noteq> []]"

text \<open>Lines 78 to 85: the record an upload inserts.\<close>

definition video_doc :: "UploadFile \<Rightarrow> str option \<Rightarrow> str option \<Rightarrow> str option \<Rightarrow> str \<Rightarrow> str \<Rightarrow> Video" where
  "video_doc file title_in description_in tags_in safe_name ctype =
     \<lparr>title = or_str title_in (or_str (file_filename file) (py ''Untitled'')),
      description = description_in,
      filename = safe_name,
      content_type = ctype,
      size_bytes = int (length (file_content file)),
      views = 0,
      tags = tag_list tags_in\<rparr>"

text \<open>Line 68: the name of the stored file.\<close>

definition safe_name :: "ObjectId \<Rightarrow> UploadFile \<Rightarrow> str" where
  "safe_name oid file = str_of_ObjectId oid @ snd (splitext (or_str (file_filename file) []))"

text \<open>
  Line 73: \<^verbatim>\<open>open(destination, "wb")\<close> for a file name in \<^verbatim>\<open>uploads/\<close>, \<open>Some\<close> the
  exception it raises. The name is encoded for the file system (UTF-8, the surrogates
  U+DC80 to U+DCFF standing for one octet each): a name with another surrogate or with
  a NUL raises a \<^verbatim>\<open>ValueError\<close>, and a name of more than \<open>NAME_MAX\<close> octets raises
  \<^verbatim>\<open>OSError\<close> (255 on the usual Linux file systems). Nothing is created then.
\<close>

definition NAME_MAX :: nat where
  "NAME_MAX = 255"

definition fs_octets :: "codepoint \<Rightarrow> nat option" where
  "fs_octets c =
     (if c < 128 then Some 1
      else if c < 2048 then Some 2
      else if 56448 \<le> c \<and> c \<le> 56575 then Some 1
      else if 55296 \<le> c \<and> c \<le> 57343 then None
      else if c < 65536 then Some 3
      else Some 4)"

definition open_wb :: "str \<Rightarrow> error option" where
  "open_wb name =
     (if list_ex (\<lambda>c. fs_octets c = None) name \<or> 0 \<in> set name then Some ValueError
      else if NAME_MAX < sum_list (map (\<lambda>c. the (fs_octets c)) name) then Some OSError
      else None)"

text \<open>\<^verbatim>\<open>POST /api/videos\<close>\<close>

definition upload_video ::
  "UploadFile \<Rightarrow> str option \<Rightarrow> str option \<Rightarrow> str option \<Rightarrow> fresh \<Rightarrow> world \<Rightarrow> (error + str) \<times> world" where
  "upload_video file title_in description_in tags_in env w =
     (case file_content_type file of
        None \<Rightarrow> (Inl InvalidContentType, w)
      | Some ctype \<Rightarrow>
          if \<not> startswith ctype (py ''video/'') then (Inl InvalidContentType, w)
          else
            let name = safe_name (name_oid env) file;
                content = file_content file
            in (case open_wb name of
                  Some e \<Rightarrow> (Inl e, w)
                | None \<Rightarrow>
                    let w1 = w\<lparr>uploads := (uploads w)(name \<mapsto> content)\<rparr>;
                        doc = video_doc file title_in description_in tags_in name ctype;
                        (inserted_id, coll) =
                          create_document (db_video w1) doc (insert_oid env) (now env)
                    in (Inr inserted_id, w1\<lparr>db_video := coll\<rparr>)))"

text \<open>The dictionary built from a document (lines 105 to 115 and 134 to 144).\<close>

definition project :: "document \<Rightarrow> response" where
  "project d =
     \<lparr>title = title d, description = description d, filename = filename d,
      content_type = content_type d, size_bytes = size_bytes d, views = views d,
      tags = tags d, resp_id = str_of_ObjectId (doc_id d), resp_created_at = created_at d\<rparr>"

text \<open>\<^verbatim>\<open>GET /api/videos\<close>\<close>

definition list_videos :: "str option \<Rightarrow> world \<Rightarrow> response list option" where
  "list_videos q w =
     (let flt = (case q of
                   None \<Rightarrow> Empty
                 | Some s \<Rightarrow>
                     if s = [] then Empty
                     else Or [Regex_i Title s, Regex_i Description s, Regex_i Tags s])
      in map_option (map project) (get_documents (db_video w) flt))"

text \<open>\<^verbatim>\<open>GET /api/videos/{video_id}\<close>\<close>

definition view_update :: "document \<Rightarrow> document" where
  "view_update d = d\<lparr>views := views d + 1, updated_at := None\<rparr>"

definition get_video :: "str \<Rightarrow> world \<Rightarrow> (error + response) \<times> world" where
  "get_video video_id w =
     (case ObjectId_of_str video_id of
        None \<Rightarrow> (Inl InvalidIdentifier, w)
      | Some oid \<Rightarrow>
          let (doc, coll) = find_one_and_update (\<lambda>d. doc_id d = oid) view_update (db_video w);
              w' = w\<lparr>db_video := coll\<rparr>
          in (case doc of
                None \<Rightarrow> (Inl (NotFound ''Video not found''), w')
              | Some d \<Rightarrow> (Inr (project d), w')))"

text \<open>
  \<^verbatim>\<open>GET /stream/{filename}\<close>. The route delivers one path segment, so \<open>filename\<close>
  holds no \<^verbatim>\<open>/\<close>. \<^verbatim>\<open>os.path.exists\<close> is true of every entry of the directory, its
  regular files and the directory entries \<^verbatim>\<open>.\<close> and \<^verbatim>\<open>..\<close> (and of the directory
  itself, for the empty name); \<^verbatim>\<open>FileResponse\<close> sends the bytes of a regular file and
  raises \<^verbatim>\<open>RuntimeError\<close> on a path that is not one.
\<close>

definition os_path_exists :: "world \<Rightarrow> str \<Rightarrow> bool" where
  "os_path_exists w name \<longleftrightarrow> name \<in> {[], py ''.'', py ''..''} \<or> uploads w name \<noteq> None"

definition FileResponse :: "world \<Rightarrow> str \<Rightarrow> error + bytes" where
  "FileResponse w name = (case uploads w name of None \<Rightarrow> Inl RuntimeError | Some b \<Rightarrow> Inr b)"

definition stream_file :: "str \<Rightarrow> world \<Rightarrow> error + bytes" where
  "stream_file name w =
     (if \<not> os_path_exists w name then Inl (NotFound ''File not found'')
      else FileResponse w name)"

section \<open>The spec's wording of the search\<close>

text \<open>
  \<open>q\<close> occurs as a case-insensitive substring of \<open>s\<close> (case compared on the ASCII
  letters); and the three checks of the Query Service on one record: the title, or the
  description, or at least one tag.
\<close>

definition icontains :: "str \<Rightarrow> str \<Rightarrow> bool" where
  "icontains q s \<longleftrightarrow> sublist (map lower_ascii q) (map lower_ascii s)"

definition q_occurs :: "str \<Rightarrow> document \<Rightarrow> bool" where
  "q_occurs q d \<longleftrightarrow>
     icontains q (title d) \<or>
     (case description d of None \<Rightarrow> False | Some s \<Rightarrow> icontains q s) \<or>
     (\<exists>t \<in> set (tags d). icontains q t)"

text \<open>A record whose title, description and tags are printable ASCII.\<close>

definition printable_doc :: "document \<Rightarrow> bool" where
  "printable_doc d \<longleftrightarrow>
     list_all printable (title d) \<and>
     (case description d of None \<Rightarrow> True | Some s \<Rightarrow> list_all printable s) \<and>
     list_all (list_all printable) (tags d)"

text \<open>\<^verbatim>\<open>sep.join(pieces)\<close>, the inverse of \<^verbatim>\<open>split\<close>.\<close>

fun join :: "codepoint \<Rightarrow> str list \<Rightarrow> str" where
  "join sep [] = []"
| "join sep [p] = p"
| "join sep (p # q # ps) = p @ sep # join sep (q # ps)"

section \<open>Example values\<close>

definition oid_1 :: ObjectId where
  "oid_1 = ObjectId [0, 0, 0, 0, 0, 0, 0, 0, 0, 0, 0, 1]"

definition oid_2 :: ObjectId where
  "oid_2 = ObjectId [0, 0, 0, 0, 0, 0, 0, 0, 0, 0, 0, 2]"

definition cat_file :: UploadFile where
  "cat_file = \<lparr>file_filename = Some (py ''cat.mp4''), file_content_type = Some (py ''video/mp4''),
               file_size = Some 999, file_content = [1, 2, 3]\<rparr>"

definition png_file :: UploadFile where
  "png_file = \<lparr>file_filename = Some (py ''cat.png''), file_content_type = Some (py ''image/png''),
               file_size = Some 3, file_content = [1, 2, 3]\<rparr>"

definition nameless_file :: UploadFile where
  "nameless_file = \<lparr>file_filename = None, file_content_type = Some (py ''video/mp4''),
               file_size = None, file_content = []\<rparr>"

definition long_ext_file :: UploadFile where
  "long_ext_file = \<lparr>file_filename = Some (py ''a.'' @ replicate 300 120),
               file_content_type = Some (py ''video/mp4''),
               file_size = Some 3, file_content = [1, 2, 3]\<rparr>"

definition env_1 :: fresh where
  "env_1 = \<lparr>name_oid = oid_1, insert_oid = oid_2, now = 100\<rparr>"

definition empty_world :: world where
  "empty_world = \<lparr>uploads = Map.empty, db_video = []\<rparr>"

definition cat_doc :: document where
  "cat_doc = \<lparr>title = py ''Cat videos'', description = None,
              filename = py ''000000000000000000000001.mp4'', content_type = py ''video/mp4'',
              size_bytes = 3, views = 7, tags = [py ''pets''],
              doc_id = oid_2, created_at = 100, updated_at = Some 100\<rparr>"

definition cat_world :: world where
  "cat_world = \<lparr>uploads = [py ''000000000000000000000001.mp4'' \<mapsto> [1, 2, 3]],
                db_video = [cat_doc]\<rparr>"

section \<open>Facts about the library functions\<close>

lemma startswith_iff: "startswith s p \<longleftrightarrow> (\<exists>rest. s = p @ rest)"
  unfolding startswith_def
  by (metis append_eq_conv_conj append_take_drop_id)


lemma find_one_and_update_Some:
  "List.find P xs = Some d \<Longrightarrow>
   \<exists>pre post. xs = pre @ d # post \<and> (\<forall>x\<in>set pre. \<not> P x) \<and>
     find_one_and_update P u xs = (Some (u d), pre @ u d # post)"
proof (induction xs)
  case Nil
  then show ?case by simp
next
  case (Cons x xs)
  show ?case
  proof (cases "P x")
    case True
    with Cons.prems have "x = d" by simp
    with True have "x # xs = [] @ d # xs \<and> (\<forall>y\<in>set []. \<not> P y) \<and>
      find_one_and_update P u (x # xs) = (Some (u d), [] @ u d # xs)" by simp
    then show ?thesis by blast
  next
    case False
    with Cons.prems have "List.find P xs = Some d" by simp
    from Cons.IH [OF this] obtain pre post where
      h: "xs = pre @ d # post" "\<forall>y\<in>set pre. \<not> P y"
         "find_one_and_update P u xs = (Some (u d), pre @ u d # post)" by blast
    with False have "x # xs = (x # pre) @ d # post \<and> (\<forall>y\<in>set (x # pre). \<not> P y) \<and>
      find_one_and_update P u (x # xs) = (Some (u d), (x # pre) @ u d # post)" by simp
    then show ?thesis by blast
  qed
qed

text \<open>
  The string of a twelve-octet ObjectId parses back to it: the id an upload returns is
  one the View Service accepts.
\<close>

lemma hexval_hexdigit: "n < 16 \<Longrightarrow> hexval (hexdigit n) = Some n"
  by (auto simp: hexval_def hexdigit_def)

lemma hexdigit_not_space: "\<not> ascii_space (hexdigit n)"
  by (auto simp: ascii_space_def hexdigit_def)

lemma byte_of_nibbles:
  fixes b :: "8 word"
  shows "of_nat (16 * (unat b div 16) + unat b mod 16) = b"
  by (simp add: mult.commute)

lemma fromhex_hexlify: "fromhex (hexlify bs) = Some bs"
proof (induction bs)
  case Nil
  show ?case by (simp add: hexlify_def)
next
  case (Cons b bs)
  have "unat b < 2 ^ 8" using unsigned_less [of b] by simp
  then have "unat b div 16 < 16" by simp
  moreover have "unat b mod 16 < 16" by simp
  moreover have "hexlify (b # bs) =
      hexdigit (unat b div 16) # hexdigit (unat b mod 16) # hexlify bs"
    by (simp add: hexlify_def)
  ultimately show ?case
    using Cons.IH by (simp add: hexval_hexdigit hexdigit_not_space byte_of_nibbles)
qed

lemma length_hexlify: "length (hexlify bs) = 2 * length bs"
  by (induction bs) (simp_all add: hexlify_def)

lemma ObjectId_round_trip:
  "length (binary oid) = 12 \<Longrightarrow> ObjectId_of_str (str_of_ObjectId oid) = Some oid"
  by (cases oid) (simp add: ObjectId_of_str_def str_of_ObjectId_def length_hexlify fromhex_hexlify)

section \<open>Facts about the example values\<close>


lemma parse_oid_2: "ObjectId_of_str (py ''000000000000000000000002'') = Some oid_2"
  by code_simp





lemma find_cat_doc: "List.find (\<lambda>d. doc_id d = oid_2) (db_video cat_world) = Some cat_doc"
  by (simp add: cat_world_def cat_doc_def)

lemma open_cat_name: "open_wb (safe_name (name_oid env_1) cat_file) = None"
  by code_simp

lemma open_nameless_name: "open_wb (safe_name (name_oid env_1) nameless_file) = None"
  by code_simp

lemma open_long_name: "open_wb (safe_name (name_oid env_1) long_ext_file) = Some OSError"
  by code_simp

lemma video_mp4: "startswith (py ''video/mp4'') (py ''video/'')"
  by (simp add: startswith_def py_def)

lemma upload_cat_file:
  "\<exists>vid w'. upload_video cat_file title_in None None env_1 empty_world = (Inr vid, w')"
proof -
  have "file_content_type cat_file = Some (py ''video/mp4'')" by (simp add: cat_file_def)
  with video_mp4 open_cat_name show ?thesis
    by (simp add: upload_video_def create_document_def Let_def)
qed

lemma upload_nameless_file:
  "\<exists>vid w'. upload_video nameless_file title_in None None env_1 empty_world = (Inr vid, w')"
proof -
  have "file_content_type nameless_file = Some (py ''video/mp4'')"
    by (simp add: nameless_file_def)
  with video_mp4 open_nameless_name show ?thesis
    by (simp add: upload_video_def create_document_def Let_def)
qed

lemma upload_long_ext_file:
  "upload_video long_ext_file None None None env_1 empty_world = (Inl OSError, empty_world)"
proof -
  have "file_content_type long_ext_file = Some (py ''video/mp4'')"
    by (simp add: long_ext_file_def)
  with video_mp4 open_long_name show ?thesis
    by (simp add: upload_video_def Let_def)
qed

section \<open>Uploading\<close>

text \<open>
  C1. For every upload that is accepted, the record that is inserted has as its
  \<^verbatim>\<open>size\<close> the number of bytes of the content that was written to the blob store under
  the record's file name; the size the client declares plays no part: the upload has
  the same outcome whatever it is.
\<close>

theorem upload_size_is_bytes_written:
  assumes "upload_video file title_in description_in tags_in env w = (Inr vid, w')"
  shows "\<exists>d. db_video w' = db_video w @ [d] \<and>
             uploads w' (filename d) = Some (file_content file) \<and>
             size_bytes d = int (length (file_content file)) \<and>
             (\<forall>declared. upload_video (file\<lparr>file_size := declared\<rparr>) title_in description_in tags_in env w
                 = (Inr vid, w'))"
  using assms
  by (auto simp: upload_video_def create_document_def video_doc_def safe_name_def Let_def
           split: option.splits if_splits)

theorem upload_size_is_bytes_written_witness:
  "\<exists>vid w' d. upload_video cat_file None None None env_1 empty_world = (Inr vid, w') \<and>
     db_video w' = [d] \<and> uploads w' (filename d) = Some [1, 2, 3] \<and> size_bytes d = 3 \<and>
     file_size cat_file = Some 999"
proof -
  from upload_cat_file obtain vid w' where
    h: "upload_video cat_file None None None env_1 empty_world = (Inr vid, w')" by blast
  from upload_size_is_bytes_written [OF h] obtain d where
    "db_video w' = db_video empty_world @ [d]"
    "uploads w' (filename d) = Some (file_content cat_file)"
    "size_bytes d = int (length (file_content cat_file))" by blast
  with h show ?thesis by (simp add: cat_file_def empty_world_def)
qed

text \<open>
  C2. An upload whose declared MIME type does not begin with \<^verbatim>\<open>video/\<close> (or that
  declares none) fails with \<^verbatim>\<open>InvalidContentType\<close> and leaves the files and the
  collection as they were. An upload whose MIME type begins with \<^verbatim>\<open>video/\<close> is not
  rejected so: its outcome is never \<^verbatim>\<open>InvalidContentType\<close>, and it is accepted
  whenever the file opens.
\<close>

theorem upload_rejects_non_video:
  "((\<forall>rest. file_content_type file \<noteq> Some (py ''video/'' @ rest)) \<longrightarrow>
      upload_video file title_in description_in tags_in env w = (Inl InvalidContentType, w)) \<and>
   ((\<exists>rest. file_content_type file = Some (py ''video/'' @ rest)) \<longrightarrow>
      fst (upload_video file title_in description_in tags_in env w) \<noteq> Inl InvalidContentType \<and>
      (open_wb (safe_name (name_oid env) file) = None \<longrightarrow>
         (\<exists>vid w'. upload_video file title_in description_in tags_in env w = (Inr vid, w'))))"
proof (intro conjI impI)
  assume "\<forall>rest. file_content_type file \<noteq> Some (py ''video/'' @ rest)"
  then show "upload_video file title_in description_in tags_in env w = (Inl InvalidContentType, w)"
    by (auto simp: upload_video_def startswith_iff split: option.splits)
next
  assume v: "\<exists>rest. file_content_type file = Some (py ''video/'' @ rest)"
  have "e \<noteq> InvalidContentType" if "open_wb name = Some e" for name e
    using that by (auto simp: open_wb_def split: if_splits)
  with v show "fst (upload_video file title_in description_in tags_in env w) \<noteq> Inl InvalidContentType"
    by (auto simp: upload_video_def startswith_iff create_document_def Let_def
             split: option.splits)
next
  assume "\<exists>rest. file_content_type file = Some (py ''video/'' @ rest)"
    and "open_wb (safe_name (name_oid env) file) = None"
  then show "\<exists>vid w'. upload_video file title_in description_in tags_in env w = (Inr vid, w')"
    by (auto simp: upload_video_def startswith_iff create_document_def Let_def
             split: option.splits)
qed

theorem upload_rejects_non_video_witness:
  "upload_video png_file None None None env_1 empty_world = (Inl InvalidContentType, empty_world) \<and>
   (\<exists>vid w'. upload_video cat_file None None None env_1 empty_world = (Inr vid, w')) \<and>
   upload_video long_ext_file None None None env_1 empty_world = (Inl OSError, empty_world) \<and>
   fst (upload_video long_ext_file None None None env_1 empty_world) \<noteq> Inl InvalidContentType"
proof -
  have a: "\<forall>rest. file_content_type png_file \<noteq> Some (py ''video/'' @ rest)"
    by (simp add: png_file_def py_def)
  have "file_content_type cat_file = Some (py ''video/'' @ py ''mp4'')"
    by (simp add: cat_file_def py_def)
  then have b: "\<exists>rest. file_content_type cat_file = Some (py ''video/'' @ rest)" by blast
  have "file_content_type long_ext_file = Some (py ''video/'' @ py ''mp4'')"
    by (simp add: long_ext_file_def py_def)
  then have c: "\<exists>rest. file_content_type long_ext_file = Some (py ''video/'' @ rest)" by blast
  from a upload_rejects_non_video [of png_file None None None env_1 empty_world]
  have 1: "upload_video png_file None None None env_1 empty_world =
             (Inl InvalidContentType, empty_world)" by blast
  from b open_cat_name upload_rejects_non_video [of cat_file None None None env_1 empty_world]
  have 2: "\<exists>vid w'. upload_video cat_file None None None env_1 empty_world = (Inr vid, w')"
    by blast
  from c upload_rejects_non_video [of long_ext_file None None None env_1 empty_world]
  have 3: "fst (upload_video long_ext_file None None None env_1 empty_world) \<noteq>
             Inl InvalidContentType" by blast
  from 1 2 3 upload_long_ext_file show ?thesis by (intro conjI)
qed

text \<open>
  C10. When the caller gives no title or an empty one, the title of the record is the
  file name of the upload; when that is absent or empty too, it is \<^verbatim>\<open>Untitled\<close>.
\<close>

theorem upload_title_default:
  assumes "upload_video file title_in description_in tags_in env w = (Inr vid, w')"
    and "title_in = None \<or> title_in = Some []"
  shows "\<exists>d. db_video w' = db_video w @ [d] \<and>
           (\<forall>name. file_filename file = Some name \<and> name \<noteq> [] \<longrightarrow> title d = name) \<and>
           (file_filename file = None \<or> file_filename file = Some [] \<longrightarrow> title d = py ''Untitled'')"
  using assms
  by (auto simp: upload_video_def create_document_def video_doc_def or_str_def Let_def
           split: option.splits if_splits)

theorem upload_title_default_witness:
  "(\<exists>vid w' d. upload_video cat_file None None None env_1 empty_world = (Inr vid, w') \<and>
      db_video w' = [d] \<and> title d = py ''cat.mp4'') \<and>
   (\<exists>vid w' d. upload_video nameless_file (Some []) None None env_1 empty_world = (Inr vid, w') \<and>
      db_video w' = [d] \<and> title d = py ''Untitled'')"
proof -
  from upload_cat_file obtain vid w' where
    h: "upload_video cat_file None None None env_1 empty_world = (Inr vid, w')" by blast
  from upload_title_default [OF h] obtain d where
    "db_video w' = db_video empty_world @ [d]"
    "\<forall>name. file_filename cat_file = Some name \<and> name \<noteq> [] \<longrightarrow> title d = name"
    by blast
  with h have a: "\<exists>vid w' d. upload_video cat_file None None None env_1 empty_world = (Inr vid, w') \<and>
      db_video w' = [d] \<and> title d = py ''cat.mp4''"
    by (simp add: cat_file_def empty_world_def py_def)
  from upload_nameless_file obtain vid2 w2 where
    h2: "upload_video nameless_file (Some []) None None env_1 empty_world = (Inr vid2, w2)" by blast
  from upload_title_default [OF h2] obtain d2 where
    "db_video w2 = db_video empty_world @ [d2]"
    "file_filename nameless_file = None \<or> file_filename nameless_file = Some [] \<longrightarrow> title d2 = py ''Untitled''"
    by blast
  with h2 have "\<exists>vid w' d. upload_video nameless_file (Some []) None None env_1 empty_world = (Inr vid, w') \<and>
      db_video w' = [d] \<and> title d = py ''Untitled''"
    by (simp add: nameless_file_def empty_world_def)
  with a show ?thesis by blast
qed

section \<open>Viewing\<close>



text \<open>
  C4. For the identifier of an existing record, the View Service succeeds, the record's
  \<^verbatim>\<open>views\<close> in the collection is its former value plus one, and the answer is the
  record after the increment.
\<close>

theorem get_video_increments_views:
  assumes "ObjectId_of_str video_id = Some oid"
    and "List.find (\<lambda>d. doc_id d = oid) (db_video w) = Some d"
  shows "\<exists>r w'. get_video video_id w = (Inr r, w') \<and>
           views r = views d + 1 \<and>
           List.find (\<lambda>d. doc_id d = oid) (db_video w') = Some (d\<lparr>views := views d + 1, updated_at := None\<rparr>) \<and>
           r = project (d\<lparr>views := views d + 1, updated_at := None\<rparr>)"
proof -
  from find_one_and_update_Some [OF assms(2), of view_update] obtain pre post where
    h: "db_video w = pre @ d # post" "\<forall>x\<in>set pre. doc_id x \<noteq> oid"
       "find_one_and_update (\<lambda>d. doc_id d = oid) view_update (db_video w) = (Some (view_update d), pre @ view_update d # post)"
    by blast
  from assms(2) have "doc_id d = oid" by (auto simp: find_Some_iff)
  then have "List.find (\<lambda>d. doc_id d = oid) (pre @ view_update d # post) = Some (view_update d)"
    using h(2) by (induction pre) (auto simp: view_update_def)
  with h(3) assms(1) show ?thesis
    by (simp add: get_video_def view_update_def project_def)
qed

theorem get_video_increments_views_witness:
  "\<exists>r w'. get_video (py ''000000000000000000000002'') cat_world = (Inr r, w') \<and>
     views r = 8 \<and> views cat_doc = 7"
proof -
  from get_video_increments_views [OF parse_oid_2 find_cat_doc] obtain r w' where
    "get_video (py ''000000000000000000000002'') cat_world = (Inr r, w')"
    "views r = views cat_doc + 1" by blast
  then show ?thesis by (simp add: cat_doc_def)
qed

text \<open>
  C9. A successful view changes one record of the collection and nothing else; of that
  record it keeps the id, title, description, file name, content type, size, tags and
  creation time, and it sets \<^verbatim>\<open>updated_at\<close> to the empty value.
\<close>

theorem view_increment_frame:
  assumes "ObjectId_of_str video_id = Some oid"
    and "List.find (\<lambda>d. doc_id d = oid) (db_video w) = Some d"
  shows "\<exists>r w' pre post d'. get_video video_id w = (Inr r, w') \<and>
           db_video w = pre @ d # post \<and> db_video w' = pre @ d' # post \<and>
           uploads w' = uploads w \<and>
           doc_id d' = doc_id d \<and> title d' = title d \<and> description d' = description d \<and>
           filename d' = filename d \<and> content_type d' = content_type d \<and>
           size_bytes d' = size_bytes d \<and> tags d' = tags d \<and> created_at d' = created_at d \<and>
           updated_at d' = None"
proof -
  from find_one_and_update_Some [OF assms(2), of view_update] obtain pre post where
    h: "db_video w = pre @ d # post"
       "find_one_and_update (\<lambda>d. doc_id d = oid) view_update (db_video w) = (Some (view_update d), pre @ view_update d # post)"
    by blast
  with assms(1) have
    "get_video video_id w = (Inr (project (view_update d)), w\<lparr>db_video := pre @ view_update d # post\<rparr>)"
    by (simp add: get_video_def)
  with h(1) show ?thesis
    by (intro exI [of _ "project (view_update d)"]
          exI [of _ "w\<lparr>db_video := pre @ view_update d # post\<rparr>"]
          exI [of _ pre] exI [of _ post] exI [of _ "view_update d"])
       (simp add: view_update_def)
qed

theorem view_increment_frame_witness:
  "\<exists>r w' d'. get_video (py ''000000000000000000000002'') cat_world = (Inr r, w') \<and>
     db_video w' = [d'] \<and> title d' = py ''Cat videos'' \<and> size_bytes d' = 3 \<and>
     updated_at cat_doc = Some 100 \<and> updated_at d' = None"
proof -
  from view_increment_frame [OF parse_oid_2 find_cat_doc] obtain r w' pre post d' where
    h: "get_video (py ''000000000000000000000002'') cat_world = (Inr r, w')"
       "db_video cat_world = pre @ cat_doc # post" "db_video w' = pre @ d' # post"
       "title d' = title cat_doc" "size_bytes d' = size_bytes cat_doc" "updated_at d' = None"
    by blast
  from h(2) have "pre = [] \<and> post = []"
    by (cases pre) (simp_all add: cat_world_def)
  with h show ?thesis by (simp add: cat_doc_def)
qed

section \<open>The tag list\<close>

lemma split_not_Nil: "split sep s \<noteq> []"
  by (induction s) (auto split: list.splits)

lemma join_Cons: "ps \<noteq> [] \<Longrightarrow> join sep (p # ps) = p @ sep # join sep ps"
  by (cases ps) simp_all

lemma join_split: "join sep (split sep s) = s"
proof (induction s)
  case Nil
  show ?case by simp
next
  case (Cons c cs)
  show ?case
  proof (cases "c = sep")
    case True
    with Cons split_not_Nil [of sep cs] show ?thesis by (simp add: join_Cons)
  next
    case False
    obtain p ps where sp: "split sep cs = p # ps"
      using split_not_Nil [of sep cs] by (cases "split sep cs") auto
    with Cons have "join sep (p # ps) = cs" by simp
    then have "join sep ((c # p) # ps) = c # cs" by (cases ps) auto
    with False sp show ?thesis by simp
  qed
qed

lemma split_no_sep: "p \<in> set (split sep s) \<Longrightarrow> sep \<notin> set p"
proof (induction s arbitrary: p)
  case Nil
  then show ?case by simp
next
  case (Cons c cs)
  then show ?case
    by (cases "split sep cs") (auto split: if_splits)
qed

lemma strip_decompose:
  "\<exists>l r. s = l @ strip s @ r \<and> (\<forall>c\<in>set l. isspace c) \<and> (\<forall>c\<in>set r. isspace c)"
proof -
  let ?l = "takeWhile isspace s"
  let ?m = "dropWhile isspace s"
  let ?r = "rev (takeWhile isspace (rev ?m))"
  have m: "?m = strip s @ ?r"
    unfolding strip_def by (metis rev_append rev_rev_ident takeWhile_dropWhile_id)
  have "s = ?l @ ?m" by simp
  with m have "s = ?l @ strip s @ ?r" by simp
  moreover have "\<forall>c\<in>set ?l. isspace c" by (auto dest: set_takeWhileD)
  moreover have "\<forall>c\<in>set ?r. isspace c" by (auto dest: set_takeWhileD)
  ultimately show ?thesis by blast
qed

lemma strip_ends:
  assumes "strip s \<noteq> []"
  shows "\<not> isspace (hd (strip s)) \<and> \<not> isspace (last (strip s))"
proof -
  let ?m = "dropWhile isspace s"
  let ?d = "dropWhile isspace (rev ?m)"
  from assms have d: "?d \<noteq> []" by (simp add: strip_def)
  then have "\<not> isspace (hd ?d)" by (rule hd_dropWhile)
  with d have last: "\<not> isspace (last (strip s))" by (simp add: strip_def last_rev)
  from d have m: "?m \<noteq> []" by (metis dropWhile.simps(1) rev_is_Nil_conv)
  then have hm: "\<not> isspace (hd ?m)" by (rule hd_dropWhile)
  have "?m = strip s @ rev (takeWhile isspace (rev ?m))"
    unfolding strip_def by (metis rev_append rev_rev_ident takeWhile_dropWhile_id)
  then have "hd ?m = hd (strip s)" using assms by (metis hd_append2)
  with hm last show ?thesis by simp
qed

lemma tag_list_eq: "tag_list (Some s) = filter (\<lambda>t. t \<noteq> []) (map strip (split comma s))"
proof -
  have "concat (map (\<lambda>t. if strip t \<noteq> [] then [strip t] else []) ps) =
        filter (\<lambda>t. t \<noteq> []) (map strip ps)" for ps
    by (induction ps) auto
  then show ?thesis by (simp add: tag_list_def or_str_def)
qed

lemma tag_list_None: "tag_list None = []"
  by (simp add: tag_list_def or_str_def strip_def)

lemma tag_list_example: "tag_list (Some (py ''a, b ,,c'')) = [py ''a'', py ''b'', py ''c'']"
  by (simp add: tag_list_def py_def or_str_def comma_def strip_def isspace_def)

lemma split_example: "split comma (py ''b, a ,,b'') = [py ''b'', py '' a '', [], py ''b'']"
  by (simp add: py_def comma_def)

lemma strip_examples: "strip (py ''b'') = py ''b''" "strip (py '' a '') = py ''a''" "strip [] = []"
  by (simp_all add: strip_def py_def isspace_def)

text \<open>
  C7. The tag list of an upload is the list of the comma-separated pieces of the input,
  each with its leading and trailing whitespace removed, without the pieces that are
  then empty, in the order of the input and with repetitions kept. The pieces are what
  splitting on commas means: joined by commas they give the input back, and none holds
  a comma. Trimming removes whitespace only, and leaves no whitespace at either end.
  The input \<^verbatim>\<open>a, b ,,c\<close> gives the three tags a, b, c.
\<close>

theorem tag_list_parses:
  "tag_list None = [] \<and>
   tag_list (Some s) = filter (\<lambda>t. t \<noteq> []) (map strip (split comma s)) \<and>
   join comma (split comma s) = s \<and>
   (\<forall>p\<in>set (split comma s). comma \<notin> set p) \<and>
   (\<exists>l r. t = l @ strip t @ r \<and> (\<forall>c\<in>set l. isspace c) \<and> (\<forall>c\<in>set r. isspace c)) \<and>
   (strip t \<noteq> [] \<longrightarrow> \<not> isspace (hd (strip t)) \<and> \<not> isspace (last (strip t))) \<and>
   tag_list (Some (py ''a, b ,,c'')) = [py ''a'', py ''b'', py ''c'']"
proof (intro conjI)
  show "tag_list None = []" by (rule tag_list_None)
  show "tag_list (Some s) = filter (\<lambda>t. t \<noteq> []) (map strip (split comma s))"
    by (rule tag_list_eq)
  show "join comma (split comma s) = s" by (rule join_split)
  show "\<forall>p\<in>set (split comma s). comma \<notin> set p" using split_no_sep by blast
  show "\<exists>l r. t = l @ strip t @ r \<and> (\<forall>c\<in>set l. isspace c) \<and> (\<forall>c\<in>set r. isspace c)"
    by (rule strip_decompose)
  show "strip t \<noteq> [] \<longrightarrow> \<not> isspace (hd (strip t)) \<and> \<not> isspace (last (strip t))"
    using strip_ends by blast
  show "tag_list (Some (py ''a, b ,,c'')) = [py ''a'', py ''b'', py ''c'']"
    by (rule tag_list_example)
qed

theorem tag_list_parses_witness:
  "tag_list (Some (py ''b, a ,,b'')) = [py ''b'', py ''a'', py ''b''] \<and>
   split comma (py ''b, a ,,b'') = [py ''b'', py '' a '', [], py ''b''] \<and>
   strip (py '' a '') = py ''a'' \<and> \<not> isspace (hd (py ''a''))"
proof -
  note a = split_example
  note b = strip_examples
  have c: "py ''b'' \<noteq> []" "py ''a'' \<noteq> []" by (simp_all add: py_def)
  have t: "tag_list (Some (py ''b, a ,,b'')) =
          filter (\<lambda>t. t \<noteq> []) (map strip (split comma (py ''b, a ,,b'')))"
    using tag_list_parses [of "py ''b, a ,,b''" "py '' a ''"] by (elim conjE)
  have e: "strip (py '' a '') \<noteq> [] \<longrightarrow> \<not> isspace (hd (strip (py '' a '')))"
    using tag_list_parses [of "py ''b, a ,,b''" "py '' a ''"] by (elim conjE) (rule impI, simp)
  from t have "tag_list (Some (py ''b, a ,,b'')) = [py ''b'', py ''a'', py ''b'']"
    unfolding a by (simp add: b c)
  moreover from e have "\<not> isspace (hd (py ''a''))" unfolding b(2) using c(2) by simp
  ultimately show ?thesis using a b(2) by (intro conjI)
qed

section \<open>Searching\<close>

lemma dot_is_metachar: "dot \<in> set metachars"
  by (simp add: dot_def metachars_def py_def)

lemma regex_compile_plain:
  "list_all printable q \<Longrightarrow> set q \<inter> set metachars = {} \<Longrightarrow>
   regex_compile q = Some (map Literal q)"
proof (induction q)
  case Nil
  show ?case by simp
next
  case (Cons c cs)
  then have "printable c" "c \<notin> set metachars" "list_all printable cs"
    "set cs \<inter> set metachars = {}" by auto
  moreover from this dot_is_metachar have "c \<noteq> dot" by blast
  ultimately show ?case using Cons.IH by simp
qed

lemma match_here_Literal:
  "list_all printable q \<Longrightarrow> list_all printable s \<Longrightarrow>
   match_here (map Literal q) s = Some (prefix (map lower_ascii q) (map lower_ascii s))"
proof (induction q arbitrary: s)
  case Nil
  show ?case by simp
next
  case (Cons c cs)
  show ?case
  proof (cases s)
    case Nil
    then show ?thesis by simp
  next
    case (Cons x xs)
    with Cons.prems have "printable c" "printable x" "list_all printable cs"
      "list_all printable xs" by auto
    with Cons.IH [of xs] Cons show ?thesis by simp
  qed
qed

lemma regex_search_Literal:
  "list_all printable q \<Longrightarrow> list_all printable s \<Longrightarrow>
   regex_search (map Literal q) s = Some (icontains q s)"
proof (induction s)
  case Nil
  then show ?case by (cases q) (simp_all add: icontains_def)
next
  case (Cons c cs)
  have "icontains q (c # cs) \<longleftrightarrow>
        prefix (map lower_ascii q) (map lower_ascii (c # cs)) \<or> icontains q cs"
    by (simp add: icontains_def sublist_Cons_right)
  moreover from Cons.prems have "list_all printable cs" by simp
  ultimately show ?case
    using Cons.IH Cons.prems match_here_Literal [of q "c # cs"] by simp
qed

lemma any_match_Literal:
  "list_all printable q \<Longrightarrow> list_all (list_all printable) ss \<Longrightarrow>
   any_match (map Literal q) ss = Some (\<exists>s\<in>set ss. icontains q s)"
  by (induction ss) (simp_all add: regex_search_Literal)

lemma plain_condition:
  assumes "list_all printable q" and "set q \<inter> set metachars = {}"
  shows "condition_holds (Regex_i f q) = Some (\<lambda>d. any_match (map Literal q) (field_strings f d))"
  using regex_compile_plain [OF assms] by simp

lemma plain_filter_on_doc:
  assumes "list_all printable q" and "printable_doc d"
  shows "foldr (\<lambda>c rest. or_else (any_match (map Literal q) (field_strings c d)) rest)
           [Title, Description, Tags] (Some False) = Some (q_occurs q d)"
proof -
  from assms(2) have t: "list_all (list_all printable) (field_strings Title d)"
    and s: "list_all (list_all printable) (field_strings Description d)"
    and g: "list_all (list_all printable) (field_strings Tags d)"
    by (auto simp: printable_doc_def split: option.splits)
  have a: "any_match (map Literal q) (field_strings Title d) = Some (icontains q (title d))"
    using any_match_Literal [OF assms(1) t] by simp
  have b: "any_match (map Literal q) (field_strings Description d) =
           Some (case description d of None \<Rightarrow> False | Some s \<Rightarrow> icontains q s)"
    using any_match_Literal [OF assms(1) s] by (simp split: option.splits)
  have c: "any_match (map Literal q) (field_strings Tags d) =
           Some (\<exists>t\<in>set (tags d). icontains q t)"
    using any_match_Literal [OF assms(1) g] by simp
  show ?thesis
    by (simp add: a b c q_occurs_def del: field_strings.simps any_match.simps)
qed

lemma select_docs_total:
  "\<forall>d\<in>set ds. P d = Some (Q d) \<Longrightarrow> select_docs P ds = Some (filter Q ds)"
  by (induction ds) simp_all

text \<open>
  Where the search does what the spec says: a query of printable ASCII characters
  without metacharacters, over records of printable ASCII.
\<close>

lemma list_videos_plain_query:
  assumes "q \<noteq> []" and "list_all printable q" and "set q \<inter> set metachars = {}"
    and "\<forall>d\<in>set (db_video w). printable_doc d"
  shows "list_videos (Some q) w = Some (map project (filter (q_occurs q) (db_video w)))"
proof -
  note c = plain_condition [OF assms(2,3)]
  let ?P = "\<lambda>d. foldr (\<lambda>c rest. or_else (the (condition_holds c) d) rest)
              [Regex_i Title q, Regex_i Description q, Regex_i Tags q] (Some False)"
  have f: "filter_holds (Or [Regex_i Title q, Regex_i Description q, Regex_i Tags q]) = Some ?P"
    by (simp add: c del: condition_holds.simps)
  have "?P d = Some (q_occurs q d)" if "printable_doc d" for d
    using plain_filter_on_doc [OF assms(2) that] by (simp add: c del: condition_holds.simps)
  with assms(4) have "\<forall>d\<in>set (db_video w). ?P d = Some (q_occurs q d)" by blast
  then have "select_docs ?P (db_video w) = Some (filter (q_occurs q) (db_video w))"
    by (rule select_docs_total)
  with f assms(1) show ?thesis
    by (simp add: list_videos_def get_documents_def del: filter_holds.simps)
qed

lemma list_videos_no_query:
  "list_videos None w = Some (map project (db_video w))"
  "list_videos (Some []) w = Some (map project (db_video w))"
proof -
  have "select_docs (\<lambda>d. Some True) ds = Some ds" for ds
    by (induction ds) simp_all
  then show "list_videos None w = Some (map project (db_video w))"
    "list_videos (Some []) w = Some (map project (db_video w))"
    by (simp_all add: list_videos_def get_documents_def)
qed

text \<open>
  C6. The claim: for a non-empty \<open>q\<close> the Query Service returns exactly the records in
  which \<open>q\<close> occurs as a case-insensitive substring of the title, the description or a
  tag, whatever characters \<open>q\<close> holds. \<open>list_videos\<close> hands \<open>q\<close> to \<^verbatim>\<open>$regex\<close> as
  it is, so this holds for a \<open>q\<close> of printable ASCII without metacharacters, over
  records of printable ASCII (\<open>list_videos_plain_query\<close> above), and fails for a
  \<open>q\<close> with a metacharacter: the query \<^verbatim>\<open>c.t\<close> returns the record
  titled \<^verbatim>\<open>Cat videos\<close>, in which \<^verbatim>\<open>c.t\<close> does not occur.
\<close>

theorem list_videos_reads_q_as_regex:
  "list_videos (Some (py ''c.t'')) cat_world = Some [project cat_doc] \<and>
   \<not> q_occurs (py ''c.t'') cat_doc"
  by code_simp

lemma list_videos_cat: "list_videos (Some (py ''CAT'')) cat_world = Some [project cat_doc]"
  by code_simp

section \<open>Streaming\<close>

lemma hexdigit_inj: "hexdigit m = hexdigit n \<Longrightarrow> m = n"
  by (auto simp: hexdigit_def split: if_splits)

lemma byte_hex_inj:
  fixes b c :: "8 word"
  assumes "hexdigit (unat b div 16) = hexdigit (unat c div 16)"
    and "hexdigit (unat b mod 16) = hexdigit (unat c mod 16)"
  shows "b = c"
proof -
  from assms have "unat b div 16 = unat c div 16" "unat b mod 16 = unat c mod 16"
    by (auto dest: hexdigit_inj)
  then have "unat b = unat c" by (metis div_mult_mod_eq)
  then show ?thesis by (simp add: word_unat_eq_iff)
qed

lemma hexlify_Cons:
  "hexlify (b # bs) = hexdigit (unat b div 16) # hexdigit (unat b mod 16) # hexlify bs"
  by (simp add: hexlify_def)

lemma hexlify_inj:
  "length bs = length cs \<Longrightarrow> hexlify bs @ x = hexlify cs @ y \<Longrightarrow> bs = cs"
proof (induction bs cs rule: list_induct2)
  case Nil
  show ?case by simp
next
  case (Cons b bs c cs)
  from Cons.prems have "b = c" "hexlify bs @ x = hexlify cs @ y"
    by (auto simp: hexlify_Cons intro: byte_hex_inj)
  with Cons.IH show ?case by simp
qed

lemma safe_name_inj:
  "length (binary a) = length (binary b) \<Longrightarrow> safe_name a f = safe_name b g \<Longrightarrow> a = b"
  by (cases a, cases b) (auto simp: safe_name_def str_of_ObjectId_def dest: hexlify_inj)

lemma stream_missing:
  "uploads w name = None \<Longrightarrow> name \<notin> {[], py ''.'', py ''..''} \<Longrightarrow>
   stream_file name w = Inl (NotFound ''File not found'')"
  by (simp add: stream_file_def os_path_exists_def)

lemma stream_stored: "uploads w name = Some b \<Longrightarrow> stream_file name w = Inr b"
  by (simp add: stream_file_def os_path_exists_def FileResponse_def)

lemma stream_file_Inr_iff: "stream_file name w = Inr b \<longleftrightarrow> uploads w name = Some b"
  by (auto simp: stream_file_def os_path_exists_def FileResponse_def split: option.splits)

lemma upload_writes_blob:
  "upload_video file title_in description_in tags_in env w = (Inr vid, w') \<Longrightarrow>
   uploads w' = (uploads w)(safe_name (name_oid env) file \<mapsto> file_content file)"
  by (auto simp: upload_video_def create_document_def Let_def split: option.splits if_splits)

lemma stream_after_upload:
  "upload_video file title_in description_in tags_in env w = (Inr vid, w') \<Longrightarrow>
   stream_file (safe_name (name_oid env) file) w' = Inr (file_content file)"
  by (simp add: upload_writes_blob stream_stored)

lemma rejected_upload_keeps_world:
  "upload_video file title_in description_in tags_in env w = (Inl e, w') \<Longrightarrow> w' = w"
  by (auto simp: upload_video_def create_document_def Let_def split: option.splits if_splits)

lemma later_upload_keeps_blob:
  assumes "stream_file name w = Inr b"
    and "upload_video file title_in description_in tags_in env w = (r, w')"
    and "name \<noteq> safe_name (name_oid env) file"
  shows "stream_file name w' = Inr b"
proof (cases r)
  case (Inl e)
  with assms(2) have "w' = w" by (simp add: rejected_upload_keeps_world)
  with assms(1) show ?thesis by simp
next
  case (Inr vid)
  with assms(2) have "uploads w' = (uploads w)(safe_name (name_oid env) file \<mapsto> file_content file)"
    by (simp add: upload_writes_blob)
  with assms(3) have "uploads w' name = uploads w name" by simp
  with assms(1) show ?thesis by (simp add: stream_file_Inr_iff)
qed

lemma get_video_keeps_uploads: "uploads (snd (get_video video_id w)) = uploads w"
  by (auto simp: get_video_def Let_def split: option.splits prod.splits)

text \<open>
  C8. The claim: streaming a key under which no blob is stored fails with
  \<^verbatim>\<open>NotFound\<close>, and streaming a key an upload wrote returns the uploaded bytes. The
  second half holds (\<open>stream_after_upload\<close>, \<open>later_upload_keeps_blob\<close>), and so does
  the first for every name but the directory entries (\<open>stream_missing\<close>). For the name
  \<^verbatim>\<open>..\<close> no blob is stored, \<^verbatim>\<open>os.path.exists\<close> is true all the same, and the
  answer is the \<^verbatim>\<open>RuntimeError\<close> of \<^verbatim>\<open>FileResponse\<close>, not \<^verbatim>\<open>NotFound\<close>.
\<close>

theorem stream_file_on_directory_entry:
  "uploads cat_world (py ''..'') = None \<and> stream_file (py ''..'') cat_world = Inl RuntimeError"
  by code_simp

end
